theory Spec2Isabelle
  imports Complex_Main
begin

section \<open>Python values, exceptions and observable effects\<close>

text \<open>
  The handler of \<^verbatim>\<open>app.py\<close> moves JSON data between three services: a model
  endpoint, an agent framework and an object store. Values are the Python values that
  \<^verbatim>\<open>json.loads\<close> can produce. A \<^verbatim>\<open>str\<close> is a list of characters with code points
  below 256; a \<^verbatim>\<open>dict\<close> is an association list read with \<open>map_of\<close>.
\<close>

datatype pyfloat = FFin rat | FInf bool | FNaN

datatype pyval =
    PNone
  | PBool bool
  | PInt int
  | PFloat pyfloat
  | PStr string
  | PList "pyval list"
  | PDict "(string \<times> pyval) list"

text \<open>
  Exceptions are the subclasses of \<^verbatim>\<open>Exception\<close>, the ones an \<^verbatim>\<open>except Exception\<close>
  clause catches. \<open>ServiceError\<close> stands for whatever a client library raises (transport,
  credentials, throttling, validation).
\<close>

datatype exn =
    KeyError string
  | TypeError
  | AttributeError
  | JSONDecodeError
  | ServiceError string

text \<open>Truth value testing, as \<^verbatim>\<open>if x:\<close> and \<^verbatim>\<open>x or y\<close> do it.\<close>

fun truthy :: "pyval \<Rightarrow> bool" where
  "truthy PNone = False"
| "truthy (PBool b) = b"
| "truthy (PInt i) = (i \<noteq> 0)"
| "truthy (PFloat f) = (f \<noteq> FFin 0)"
| "truthy (PStr s) = (s \<noteq> [])"
| "truthy (PList xs) = (xs \<noteq> [])"
| "truthy (PDict kvs) = (kvs \<noteq> [])"

text \<open>\<^verbatim>\<open>x or d\<close>\<close>

definition py_or :: "pyval \<Rightarrow> pyval \<Rightarrow> pyval" where
  "py_or x d = (if truthy x then x else d)"

text \<open>\<^verbatim>\<open>x[k]\<close> with a string key: only a dict can answer; a list or a string wants an
  integer index, every other value is not subscriptable.\<close>

fun py_getitem :: "pyval \<Rightarrow> string \<Rightarrow> exn + pyval" where
  "py_getitem (PDict kvs) k = (case map_of kvs k of None \<Rightarrow> Inl (KeyError k) | Some v \<Rightarrow> Inr v)"
| "py_getitem _ k = Inl TypeError"

text \<open>\<^verbatim>\<open>x.get(k, d)\<close>: a method of dicts only.\<close>

fun py_get :: "pyval \<Rightarrow> string \<Rightarrow> pyval \<Rightarrow> exn + pyval" where
  "py_get (PDict kvs) k d = (case map_of kvs k of None \<Rightarrow> Inr d | Some v \<Rightarrow> Inr v)"
| "py_get _ k d = Inl AttributeError"

text \<open>\<^verbatim>\<open>str.isspace\<close> on one character (code points below 256) and \<^verbatim>\<open>str.strip()\<close>.\<close>

definition py_isspace :: "char \<Rightarrow> bool" where
  "py_isspace c = (of_char c \<in> {9, 10, 11, 12, 13, 28, 29, 30, 31, 32, 133, 160 :: nat})"

definition py_strip :: "string \<Rightarrow> string" where
  "py_strip s = rev (dropWhile py_isspace (rev (dropWhile py_isspace s)))"

text \<open>\<^verbatim>\<open>sep.join(xs)\<close> on a list of strings.\<close>

fun join_strs :: "string \<Rightarrow> string list \<Rightarrow> string" where
  "join_strs sep [] = []"
| "join_strs sep [x] = x"
| "join_strs sep (x # y # ys) = x @ sep @ join_strs sep (y # ys)"

text \<open>The members of an iterable handed to \<^verbatim>\<open>join\<close>: every one has to be a \<^verbatim>\<open>str\<close>.\<close>

fun all_strs :: "pyval list \<Rightarrow> string list option" where
  "all_strs [] = Some []"
| "all_strs (PStr s # vs) = (case all_strs vs of None \<Rightarrow> None | Some ss \<Rightarrow> Some (s # ss))"
| "all_strs (_ # vs) = None"

text \<open>\<^verbatim>\<open>sep.join(v)\<close> for any value: a list is joined when all its members are strings,
  a string is iterated character by character, a dict by its keys; a number, a boolean
  or \<^verbatim>\<open>None\<close> is not iterable.\<close>

fun py_join :: "string \<Rightarrow> pyval \<Rightarrow> exn + string" where
  "py_join sep (PList vs) = (case all_strs vs of None \<Rightarrow> Inl TypeError | Some ss \<Rightarrow> Inr (join_strs sep ss))"
| "py_join sep (PStr s) = Inr (join_strs sep (map (\<lambda>c. [c]) s))"
| "py_join sep (PDict kvs) = Inr (join_strs sep (map fst kvs))"
| "py_join sep _ = Inl TypeError"

subsection \<open>\<^verbatim>\<open>json.dumps\<close> of a string\<close>

definition hex_digit :: "nat \<Rightarrow> char" where
  "hex_digit n = (''0123456789abcdef'') ! (n mod 16)"

text \<open>With \<^verbatim>\<open>ensure_ascii\<close> (the default) everything outside the printable ASCII range
  is escaped, the quote and the backslash too.\<close>

definition json_escape_char :: "char \<Rightarrow> string" where
  "json_escape_char c =
     (if c = CHR 0x22 then [CHR 0x5C, CHR 0x22]
      else if c = CHR 0x5C then [CHR 0x5C, CHR 0x5C]
      else if c = CHR 0x0A then [CHR 0x5C, CHR ''n'']
      else if c = CHR 0x0D then [CHR 0x5C, CHR ''r'']
      else if c = CHR 0x09 then [CHR 0x5C, CHR ''t'']
      else if c = CHR 0x08 then [CHR 0x5C, CHR ''b'']
      else if c = CHR 0x0C then [CHR 0x5C, CHR ''f'']
      else if (of_char c :: nat) < 32 \<or> 126 < (of_char c :: nat)
        then [CHR 0x5C, CHR ''u'', CHR ''0'', CHR ''0'',
              hex_digit (of_char c div 16), hex_digit (of_char c)]
      else [c])"

definition json_dumps_str :: "string \<Rightarrow> string" where
  "json_dumps_str s = [CHR 0x22] @ concat (map json_escape_char s) @ [CHR 0x22]"

subsection \<open>Effects\<close>

text \<open>
  What an invocation does to the outside, in order: lines printed to the log, the request
  sent to the model endpoint (the request body before \<^verbatim>\<open>json.dumps\<close>, and the model id),
  the crew handed to \<^verbatim>\<open>kickoff\<close>, and the object-store write (bucket, key, body).
\<close>

record llm =
  llm_model :: string
  llm_temperature :: pyfloat
  llm_max_tokens :: int
  llm_aws_region_name :: string
  llm_timeout :: int

record agent =
  agent_role :: string
  agent_goal :: string
  agent_backstory :: string
  agent_allow_delegation :: bool
  agent_llm :: llm

text \<open>A task names the tasks whose output it reads; \<open>None\<close> when the constructor is
  given no \<^verbatim>\<open>context\<close> argument.\<close>

datatype task = Task
  (task_description: string)
  (task_expected_output: string)
  (task_agent: agent)
  (task_context: "task list option")

datatype process = Sequential | Hierarchical

record crew =
  crew_agents :: "agent list"
  crew_tasks :: "task list"
  crew_process :: process

datatype effect =
    Print string
  | InvokeModel pyval string
  | Kickoff crew
  | PutObject string string pyval

text \<open>A computation returns a value or raises, and leaves a trace of effects.\<close>

type_synonym 'a io = "(exn + 'a) \<times> effect list"

definition ret :: "'a \<Rightarrow> 'a io" where
  "ret x = (Inr x, [])"

definition emit :: "effect \<Rightarrow> unit io" where
  "emit ef = (Inr (), [ef])"

definition lift :: "exn + 'a \<Rightarrow> 'a io" where
  "lift r = (r, [])"

text \<open>Sequencing: an exception ends the computation, the trace so far stays.\<close>

definition bind :: "'a io \<Rightarrow> ('a \<Rightarrow> 'b io) \<Rightarrow> 'b io" where
  "bind m f =
     (case m of
        (Inl e, tr) \<Rightarrow> (Inl e, tr)
      | (Inr x, tr) \<Rightarrow> (case f x of (r, tr') \<Rightarrow> (r, tr @ tr')))"

text \<open>\<^verbatim>\<open>try: m  except Exception as e: h e\<close>\<close>

definition try_except :: "'a io \<Rightarrow> (exn \<Rightarrow> 'a io) \<Rightarrow> 'a io" where
  "try_except m h =
     (case m of
        (Inl e, tr) \<Rightarrow> (case h e of (r, tr') \<Rightarrow> (r, tr @ tr'))
      | (Inr x, tr) \<Rightarrow> (Inr x, tr))"

subsection \<open>The environment of one invocation\<close>

text \<open>The response of \<^verbatim>\<open>invoke_model\<close>: \<^verbatim>\<open>response.get('body')\<close> is \<open>None\<close> when the
  key is absent, else a stream whose \<^verbatim>\<open>read()\<close> raises or returns the payload.\<close>

record invoke_response =
  response_body :: "(exn + string) option"

text \<open>An attribute of a framework object, as \<^verbatim>\<open>getattr\<close> finds it.\<close>

datatype 'a attr = AttrMissing | AttrRaises exn | AttrValue 'a

datatype task_output = TaskOutput (output_raw: "pyval attr")

text \<open>What \<^verbatim>\<open>crew.kickoff()\<close> leaves behind when it returns: \<^verbatim>\<open>str(result)\<close> of the
  aggregate result, and the \<^verbatim>\<open>output\<close> attribute of the edit task (\<open>AttrValue None\<close>
  is Python's \<^verbatim>\<open>None\<close>).\<close>

record crew_run =
  run_result_str :: string
  run_edit_output :: "task_output option attr"

text \<open>An object-store client, as far as the code uses it: the answer of its
  \<^verbatim>\<open>put_object\<close> to a bucket, a key and a body, \<open>None\<close> when the write is accepted
  and the exception when it raises.\<close>

type_synonym s3 = "string \<Rightarrow> string \<Rightarrow> pyval \<Rightarrow> exn option"

record datetime =
  dt_year :: nat
  dt_month :: nat
  dt_day :: nat
  dt_hour :: nat
  dt_minute :: nat
  dt_second :: nat

text \<open>
  Everything the code takes from outside: whether the import of the framework at module
  load succeeded, the runtime's \<^verbatim>\<open>str()\<close> of values that are not strings and of
  exceptions, the JSON parser, the call to the model endpoint, the framework's run, the
  object-store client that \<^verbatim>\<open>boto3.client('s3')\<close> returns, and the clock. Each of
  these calls may raise: \<open>s3_client\<close> is \<open>Inl e\<close> when building the client raises
  \<open>e\<close>, and \<open>Inr c\<close> when it returns the client \<open>c\<close>, whose write may raise in
  turn. The model client is built inside the \<^verbatim>\<open>try\<close> block of direct generation
  (line 29), where its failure is caught like a failure of the call that follows;
  \<open>invoke_model\<close> answers for both. Building an object that only holds configuration
  (\<^verbatim>\<open>Config\<close>, \<^verbatim>\<open>LLM\<close>, \<^verbatim>\<open>Agent\<close>, \<^verbatim>\<open>Task\<close>, \<^verbatim>\<open>Crew\<close>) is taken to
  return normally.
\<close>

record env =
  crewai_imported :: bool
  py_repr :: "pyval \<Rightarrow> string"
  exn_str :: "exn \<Rightarrow> string"
  json_parse :: "string \<Rightarrow> pyval option"
  invoke_model :: "pyval \<Rightarrow> string \<Rightarrow> exn + invoke_response"
  crew_kickoff :: "crew \<Rightarrow> exn + crew_run"
  s3_client :: "exn + s3"
  clock_now :: datetime

text \<open>\<^verbatim>\<open>str(v)\<close>, as an f-string and \<^verbatim>\<open>print\<close> format a value.\<close>

definition py_str :: "env \<Rightarrow> pyval \<Rightarrow> string" where
  "py_str w v = (case v of PStr s \<Rightarrow> s | _ \<Rightarrow> py_repr w v)"

text \<open>\<^verbatim>\<open>json.loads(x)\<close>: the argument has to be text.\<close>

definition json_loads :: "env \<Rightarrow> pyval \<Rightarrow> exn + pyval" where
  "json_loads w x =
     (case x of
        PStr s \<Rightarrow> (case json_parse w s of None \<Rightarrow> Inl JSONDecodeError | Some v \<Rightarrow> Inr v)
      | _ \<Rightarrow> Inl TypeError)"

definition nl :: string where
  "nl = [CHR 0x0A]"

section \<open>Direct generation: \<^verbatim>\<open>blog_generate_using_bedrock\<close>\<close>

definition bedrock_prompt :: "env \<Rightarrow> pyval \<Rightarrow> string" where
  "bedrock_prompt w blogtopic =
     ''<s>[INST]Human: Write a 200 words blog on the topic '' @ py_str w blogtopic @ nl @
     ''    Assistant:[/INST]'' @ nl @ ''    ''"

definition bedrock_body :: "env \<Rightarrow> pyval \<Rightarrow> pyval" where
  "bedrock_body w blogtopic =
     PDict [(''prompt'', PStr (bedrock_prompt w blogtopic)),
            (''max_gen_len'', PInt 512),
            (''temperature'', PFloat (FFin (1 / 2))),
            (''top_p'', PFloat (FFin (9 / 10)))]"

text \<open>\<^verbatim>\<open>response.get('body').read()\<close>\<close>

definition read_body :: "invoke_response \<Rightarrow> exn + string" where
  "read_body r = (case response_body r of None \<Rightarrow> Inl AttributeError | Some s \<Rightarrow> s)"

text \<open>The body of the \<^verbatim>\<open>try\<close> block, lines 29 to 40.\<close>

definition bedrock_try :: "env \<Rightarrow> pyval \<Rightarrow> pyval io" where
  "bedrock_try w body =
     bind (emit (InvokeModel body ''meta.llama2-13b-chat-v1'')) (\<lambda>_.
     bind (lift (invoke_model w body ''meta.llama2-13b-chat-v1'')) (\<lambda>response.
     bind (lift (read_body response)) (\<lambda>response_content.
     bind (lift (json_loads w (PStr response_content))) (\<lambda>response_data.
     bind (emit (Print (py_str w response_data))) (\<lambda>_.
     lift (py_getitem response_data ''generation''))))))"

definition blog_generate_using_bedrock :: "env \<Rightarrow> pyval \<Rightarrow> pyval io" where
  "blog_generate_using_bedrock w blogtopic =
     try_except (bedrock_try w (bedrock_body w blogtopic))
       (\<lambda>e. bind (emit (Print (''Error generating the blog:'' @ exn_str w e))) (\<lambda>_.
             ret (PStr [])))"

section \<open>Staged generation: \<^verbatim>\<open>blog_generate_using_crewai_content_marketing\<close>\<close>

text \<open>Lines 9 to 13: the five names \<^verbatim>\<open>Agent, Task, Crew, Process, LLM\<close> are bound
  together by one import, or all to \<^verbatim>\<open>None\<close> when it fails.\<close>

definition crewai_symbols :: "env \<Rightarrow> unit option list" where
  "crewai_symbols w =
     (if crewai_imported w then [Some (), Some (), Some (), Some (), Some ()]
      else [None, None, None, None, None])"

text \<open>Line 59: \<^verbatim>\<open>any(x is None for x in [Agent, Task, Crew, Process, LLM])\<close>\<close>

definition crewai_unavailable :: "env \<Rightarrow> bool" where
  "crewai_unavailable w = list_ex (\<lambda>x. x = None) (crewai_symbols w)"

definition bedrock_llm :: llm where
  "bedrock_llm =
     \<lparr>llm_model = ''bedrock/meta.llama2-13b-chat-v1'',
      llm_temperature = FFin (1 / 2),
      llm_max_tokens = 2048,
      llm_aws_region_name = ''us-east-1'',
      llm_timeout = 300\<rparr>"

text \<open>Line 75: \<^verbatim>\<open>", ".join(seo_keywords) if seo_keywords else ""\<close>\<close>

definition keywords_str :: "pyval \<Rightarrow> exn + string" where
  "keywords_str seo_keywords =
     (if truthy seo_keywords then py_join '', '' seo_keywords else Inr [])"

definition researcher :: agent where
  "researcher =
     \<lparr>agent_role = ''Market Research Analyst'',
      agent_goal = ''Research the topic, identify up-to-date facts, trends, statistics, pain points, and SEO keywords.'',
      agent_backstory = ''You are a meticulous B2B/B2C market researcher who summarizes credible insights succinctly.'',
      agent_allow_delegation = False,
      agent_llm = bedrock_llm\<rparr>"

definition strategist :: agent where
  "strategist =
     \<lparr>agent_role = ''Content Strategist'',
      agent_goal = ''Design a high-converting outline aligned with the audience, brand, and SEO goals.'',
      agent_backstory = ''You structure content to maximize clarity, search intent match, and engagement.'',
      agent_allow_delegation = False,
      agent_llm = bedrock_llm\<rparr>"

definition writer :: agent where
  "writer =
     \<lparr>agent_role = ''Senior Copywriter'',
      agent_goal = ''Write persuasive, clear copy that is accurate and on-brand.'',
      agent_backstory = ''You write concise, engaging articles with smooth flow and strong transitions.'',
      agent_allow_delegation = False,
      agent_llm = bedrock_llm\<rparr>"

definition editor :: agent where
  "editor =
     \<lparr>agent_role = ''Managing Editor'',
      agent_goal = ''Edit for accuracy, coherence, brand tone, grammar, and SEO. Ensure factual consistency and polish.'',
      agent_backstory = ''You are uncompromising on quality and clarity; you deliver publication-ready content.'',
      agent_allow_delegation = False,
      agent_llm = bedrock_llm\<rparr>"

definition apo :: string where
  "apo = [CHR 0x27]"

text \<open>The four tasks, lines 115 to 166. The arguments are the strings the f-strings
  splice in: the topic, \<^verbatim>\<open>audience_str\<close>, \<^verbatim>\<open>brand_str\<close>, \<^verbatim>\<open>tone_str\<close>,
  \<^verbatim>\<open>keywords_str\<close> and the word count.\<close>

definition research_task :: "string \<Rightarrow> string \<Rightarrow> string \<Rightarrow> string \<Rightarrow> string \<Rightarrow> task" where
  "research_task topic audience brand tone kw =
     Task
       (''Conduct research for a blog about '' @ apo @ topic @ apo @ ''.'' @ nl @
        ''Audience: '' @ audience @ ''. Brand: '' @ brand @ ''. Desired tone: '' @ tone @ ''.'' @ nl @
        ''If SEO keywords provided, prioritize them: '' @
          (if kw \<noteq> [] then kw else ''none provided'') @ ''.'' @ nl @
        ''Deliver: '' @ nl @
        ''- 6-10 bullet points with key insights, stats (with approximate figures), and pain points'' @ nl @
        ''- 8-12 SEO keyword ideas (short and long-tail)'' @ nl @
        ''- 3-5 proposed angles for the article'' @ nl)
       ''Bullet list of insights, keyword list, and angles suitable for planning the article.''
       researcher
       None"

definition outline_task :: "task \<Rightarrow> task" where
  "outline_task research =
     Task
       (''Create a detailed outline using the research. Include: title options, H2/H3 sections,'' @
        '' bullet notes per section, and an SEO snippet plan (title tag + meta description).'')
       ''A structured outline with 1-2 title options, 5-8 H2s (with optional H3s), and bullet notes.''
       strategist
       (Some [research])"

definition write_task :: "string \<Rightarrow> string \<Rightarrow> string \<Rightarrow> string \<Rightarrow> task \<Rightarrow> task \<Rightarrow> task" where
  "write_task word_count tone audience brand research outline =
     Task
       (''Write a '' @ word_count @ ''-word article based on the outline. Maintain '' @ tone @
          '' tone for '' @ audience @ ''. '' @
        ''We are '' @ brand @
          ''. Incorporate the most important keywords naturally and avoid keyword stuffing.'')
       ''A cohesive article with intro, sections per outline, and a conclusion. No outline or notes, only prose.''
       writer
       (Some [research, outline])"

definition edit_task :: "task \<Rightarrow> task \<Rightarrow> task \<Rightarrow> task" where
  "edit_task research outline write =
     Task
       (''Revise the drafted article for clarity, correctness, brand voice, and SEO.'' @
        '' Ensure factual consistency with the research. Add a short meta description (<= 160 chars) and a CTA.'' @
        '' Return only the final publication-ready article text (followed by the meta description and CTA).'')
       (''Final polished article text suitable for publishing, then a '' @ apo @ ''Meta Description:'' @ apo @
        '' and '' @ apo @ ''CTA:'' @ apo @ '' section.'')
       editor
       (Some [research, outline, write])"

text \<open>Lines 72 to 74 and 115 to 172: the crew handed to the framework.\<close>

definition build_crew :: "env \<Rightarrow> pyval \<Rightarrow> pyval \<Rightarrow> pyval \<Rightarrow> pyval \<Rightarrow> string \<Rightarrow> pyval \<Rightarrow> crew" where
  "build_crew w blogtopic brand_name target_audience tone kw target_word_count =
     (let audience_str = py_str w (py_or target_audience (PStr ''a general business audience''));
          tone_str = py_str w (py_or tone (PStr ''helpful, expert, and approachable''));
          brand_str = py_str w (py_or brand_name (PStr ''our brand''));
          research = research_task (py_str w blogtopic) audience_str brand_str tone_str kw;
          outline = outline_task research;
          write = write_task (py_str w target_word_count) tone_str audience_str brand_str research outline;
          edit = edit_task research outline write
      in \<lparr>crew_agents = [researcher, strategist, writer, editor],
          crew_tasks = [research, outline, write, edit],
          crew_process = Sequential\<rparr>)"

text \<open>\<^verbatim>\<open>getattr(x, name, None)\<close>: a missing attribute, or an \<^verbatim>\<open>AttributeError\<close> from
  the lookup, gives the default; any other exception of the lookup is raised.\<close>

definition getattr_default :: "'a attr \<Rightarrow> 'a \<Rightarrow> exn + 'a" where
  "getattr_default a d =
     (case a of
        AttrMissing \<Rightarrow> Inr d
      | AttrRaises e \<Rightarrow> (if e = AttributeError then Inr d else Inl e)
      | AttrValue v \<Rightarrow> Inr v)"

text \<open>Lines 178 and 179: the value of \<^verbatim>\<open>final_text\<close> before the test of line 180.\<close>

definition edit_final_text :: "crew_run \<Rightarrow> exn + pyval" where
  "edit_final_text r =
     (case getattr_default (run_edit_output r) None of
        Inl e \<Rightarrow> Inl e
      | Inr None \<Rightarrow> Inr PNone
      | Inr (Some out) \<Rightarrow> getattr_default (output_raw out) PNone)"

text \<open>Lines 178 to 181, the body of the \<^verbatim>\<open>try\<close>: \<open>Inr (Some t)\<close> when line 181 returns
  \<open>t\<close>, \<open>Inr None\<close> when the test of line 180 fails.\<close>

definition extract_try :: "crew_run \<Rightarrow> exn + string option" where
  "extract_try r =
     (case edit_final_text r of
        Inl e \<Rightarrow> Inl e
      | Inr (PStr s) \<Rightarrow> (if py_strip s \<noteq> [] then Inr (Some (py_strip s)) else Inr None)
      | Inr _ \<Rightarrow> Inr None)"

text \<open>Lines 177 to 185.\<close>

definition extract_result :: "crew_run \<Rightarrow> string" where
  "extract_result r =
     (case extract_try r of
        Inl e \<Rightarrow> py_strip (run_result_str r)
      | Inr None \<Rightarrow> py_strip (run_result_str r)
      | Inr (Some t) \<Rightarrow> t)"

definition blog_generate_using_crewai_content_marketing ::
    "env \<Rightarrow> pyval \<Rightarrow> pyval \<Rightarrow> pyval \<Rightarrow> pyval \<Rightarrow> pyval \<Rightarrow> pyval \<Rightarrow> pyval io" where
  "blog_generate_using_crewai_content_marketing w blogtopic brand_name target_audience tone
       seo_keywords target_word_count =
     (if crewai_unavailable w then
        bind (emit (Print ''CrewAI not available; falling back to direct Bedrock call.'')) (\<lambda>_.
        blog_generate_using_bedrock w blogtopic)
      else
        bind (lift (keywords_str seo_keywords)) (\<lambda>kw.
        bind (ret (build_crew w blogtopic brand_name target_audience tone kw target_word_count)) (\<lambda>c.
        bind (emit (Kickoff c)) (\<lambda>_.
        bind (lift (crew_kickoff w c)) (\<lambda>run.
        ret (PStr (extract_result run)))))))"

section \<open>Persistence: \<^verbatim>\<open>save_blog_details_s3\<close>\<close>

text \<open>\<^verbatim>\<open>s3.put_object(Bucket=bucket, Key=key, Body=content)\<close>\<close>

definition put_object :: "s3 \<Rightarrow> string \<Rightarrow> string \<Rightarrow> pyval \<Rightarrow> exn + unit" where
  "put_object c bucket key content =
     (case c bucket key content of None \<Rightarrow> Inr () | Some e \<Rightarrow> Inl e)"

text \<open>Line 188 builds the client before the \<^verbatim>\<open>try\<close> of line 190: an exception of
  the constructor leaves the function, one of the write is caught and printed.\<close>

definition save_blog_details_s3 :: "env \<Rightarrow> string \<Rightarrow> string \<Rightarrow> pyval \<Rightarrow> unit io" where
  "save_blog_details_s3 w s3_key s3_bucket generate_blog =
     bind (lift (s3_client w)) (\<lambda>s3.
     try_except
       (bind (emit (PutObject s3_bucket s3_key generate_blog)) (\<lambda>_.
        bind (lift (put_object s3 s3_bucket s3_key generate_blog)) (\<lambda>_.
        emit (Print ''Content saved to s3''))))
       (\<lambda>e. emit (Print (''Error when saving the content to s3 '' @ exn_str w e))))"

section \<open>The handler: \<^verbatim>\<open>lambda_handler\<close>\<close>

definition digit :: "nat \<Rightarrow> char" where
  "digit n = char_of (48 + n mod 10)"

definition pad2 :: "nat \<Rightarrow> string" where
  "pad2 n = [digit (n div 10), digit n]"

definition pad4 :: "nat \<Rightarrow> string" where
  "pad4 n = [digit (n div 1000), digit (n div 100), digit (n div 10), digit n]"

text \<open>\<^verbatim>\<open>strftime('%Y%m%d-%H%M%S')\<close>, each field zero-padded to its width.\<close>

definition strftime_YmdHMS :: "datetime \<Rightarrow> string" where
  "strftime_YmdHMS d =
     pad4 (dt_year d) @ pad2 (dt_month d) @ pad2 (dt_day d) @ ''-'' @
     pad2 (dt_hour d) @ pad2 (dt_minute d) @ pad2 (dt_second d)"

text \<open>What \<^verbatim>\<open>datetime.now()\<close> can return: a date of the calendar, in a year of
  four digits.\<close>

definition valid_datetime :: "datetime \<Rightarrow> bool" where
  "valid_datetime d =
     (1000 \<le> dt_year d \<and> dt_year d \<le> 9999 \<and> 1 \<le> dt_month d \<and> dt_month d \<le> 12 \<and>
      1 \<le> dt_day d \<and> dt_day d \<le> 31 \<and> dt_hour d < 24 \<and> dt_minute d < 60 \<and> dt_second d < 60)"

text \<open>The reading of a timestamp \<^verbatim>\<open>YYYYMMDD-HHMMSS\<close>: what a decimal digit is, and
  the number a string of digits writes.\<close>

definition is_digit :: "char \<Rightarrow> bool" where
  "is_digit c = (48 \<le> (of_char c :: nat) \<and> (of_char c :: nat) \<le> 57)"

definition read_decimal :: "string \<Rightarrow> nat" where
  "read_decimal s = foldl (\<lambda>n c. 10 * n + (of_char c - 48)) 0 s"

record envelope =
  statusCode :: int
  body :: string

definition completed :: envelope where
  "completed = \<lparr>statusCode = 200, body = json_dumps_str ''Blog generation is completed''\<rparr>"

definition s3_key_now :: "env \<Rightarrow> string" where
  "s3_key_now w = ''blog-output/'' @ strftime_YmdHMS (clock_now w) @ ''.txt''"

text \<open>Lines 219 to 225.\<close>

definition persist :: "env \<Rightarrow> pyval \<Rightarrow> unit io" where
  "persist w generate_blog =
     (if truthy generate_blog then
        save_blog_details_s3 w (s3_key_now w) ''aws_bedrock_course1'' generate_blog
      else emit (Print ''No blog was generated''))"

text \<open>Lines 200 to 207: the request read from the event. The handler's second
  argument, the Lambda context, is never read.\<close>

record request =
  req_blogtopic :: pyval
  req_brand :: pyval
  req_audience :: pyval
  req_tone :: pyval
  req_seo_keywords :: pyval
  req_word_count :: pyval

definition parse_event :: "env \<Rightarrow> pyval \<Rightarrow> request io" where
  "parse_event w event0 =
     bind (lift (py_getitem event0 ''body'')) (\<lambda>b.
     bind (lift (json_loads w b)) (\<lambda>event.
     bind (lift (py_getitem event ''blog_topic'')) (\<lambda>blogtopic.
     bind (lift (py_get event ''brand_name'' PNone)) (\<lambda>brand.
     bind (lift (py_get event ''target_audience'' PNone)) (\<lambda>audience.
     bind (lift (py_get event ''tone'' PNone)) (\<lambda>tone.
     bind (lift (py_get event ''seo_keywords'' PNone)) (\<lambda>seo_keywords.
     bind (lift (py_get event ''target_word_count'' (PInt 700))) (\<lambda>word_count.
     ret \<lparr>req_blogtopic = blogtopic, req_brand = brand, req_audience = audience,
          req_tone = tone, req_seo_keywords = seo_keywords,
          req_word_count = word_count\<rparr>))))))))"

definition generate :: "env \<Rightarrow> request \<Rightarrow> pyval io" where
  "generate w r =
     blog_generate_using_crewai_content_marketing w (req_blogtopic r) (req_brand r)
       (req_audience r) (req_tone r) (req_seo_keywords r) (req_word_count r)"

definition lambda_handler :: "env \<Rightarrow> pyval \<Rightarrow> envelope io" where
  "lambda_handler w event0 =
     bind (parse_event w event0) (\<lambda>r.
     bind (generate w r) (\<lambda>generate_blog.
     bind (persist w generate_blog) (\<lambda>_.
     ret completed)))"

section \<open>Sample invocations\<close>

text \<open>Concrete events and environments on which the theorems below are exercised.\<close>

definition dq :: string where
  "dq = [CHR 0x22]"

text \<open>The request body \<^verbatim>\<open>{"blog_topic": "cats"}\<close>, the body \<^verbatim>\<open>{}\<close> with no
  topic, and the model's payload \<^verbatim>\<open>{"generation": "Cats purr."}\<close>.\<close>

definition body_cats :: string where
  "body_cats = ''{'' @ dq @ ''blog_topic'' @ dq @ '': '' @ dq @ ''cats'' @ dq @ ''}''"

definition payload_cats :: string where
  "payload_cats = ''{'' @ dq @ ''generation'' @ dq @ '': '' @ dq @ ''Cats purr.'' @ dq @ ''}''"

definition sample_parse :: "string \<Rightarrow> pyval option" where
  "sample_parse s =
     (if s = body_cats then Some (PDict [(''blog_topic'', PStr ''cats'')])
      else if s = payload_cats then Some (PDict [(''generation'', PStr ''Cats purr.'')])
      else if s = ''{}'' then Some (PDict [])
      else None)"

definition event_cats :: pyval where
  "event_cats = PDict [(''body'', PStr body_cats)]"

definition event_no_topic :: pyval where
  "event_no_topic = PDict [(''body'', PStr ''{}'')]"

definition event_malformed :: pyval where
  "event_malformed = PDict [(''body'', PStr ''{blog_topic'')]"

definition request_cats :: request where
  "request_cats =
     \<lparr>req_blogtopic = PStr ''cats'', req_brand = PNone, req_audience = PNone, req_tone = PNone,
      req_seo_keywords = PNone, req_word_count = PInt 700\<rparr>"

text \<open>The framework is not installed; the model answers and the store accepts.\<close>

definition env_direct :: env where
  "env_direct =
     \<lparr>crewai_imported = False,
      py_repr = (\<lambda>v. ''<value>''),
      exn_str = (\<lambda>e. ''<error>''),
      json_parse = sample_parse,
      invoke_model = (\<lambda>b m. Inr \<lparr>response_body = Some (Inr payload_cats)\<rparr>),
      crew_kickoff = (\<lambda>c. Inl (ServiceError ''no framework'')),
      s3_client = Inr (\<lambda>b k v. None),
      clock_now = \<lparr>dt_year = 2024, dt_month = 1, dt_day = 2,
                   dt_hour = 3, dt_minute = 4, dt_second = 5\<rparr>\<rparr>"

text \<open>The same, with a store that refuses the write.\<close>

definition env_store_down :: env where
  "env_store_down =
     env_direct\<lparr>s3_client := Inr (\<lambda>b k v. Some (ServiceError ''AccessDenied''))\<rparr>"

text \<open>The same, with no object-store client to be had.\<close>

definition env_client_down :: env where
  "env_client_down = env_direct\<lparr>s3_client := Inl (ServiceError ''ProfileNotFound'')\<rparr>"

text \<open>The same, with a model endpoint that times out.\<close>

definition env_model_down :: env where
  "env_model_down = env_direct\<lparr>invoke_model := (\<lambda>b m. Inl (ServiceError ''ReadTimeout''))\<rparr>"

text \<open>Neither the model endpoint nor the object-store client.\<close>

definition env_all_down :: env where
  "env_all_down = env_model_down\<lparr>s3_client := Inl (ServiceError ''ProfileNotFound'')\<rparr>"

text \<open>The framework is installed and its run fails in the middle.\<close>

definition env_crew_fails :: env where
  "env_crew_fails =
     env_direct\<lparr>crewai_imported := True,
                crew_kickoff := (\<lambda>c. Inl (ServiceError ''stage failed''))\<rparr>"

text \<open>The framework is installed and the editor's text comes back with blanks around it.\<close>

definition run_padded :: crew_run where
  "run_padded =
     \<lparr>run_result_str = ''aggregate'',
      run_edit_output = AttrValue (Some (TaskOutput (AttrValue (PStr '' Final. ''))))\<rparr>"

definition env_crew_padded :: env where
  "env_crew_padded = env_direct\<lparr>crewai_imported := True, crew_kickoff := (\<lambda>c. Inr run_padded)\<rparr>"

text \<open>The framework is installed and reading the editor's output raises.\<close>

definition run_broken :: crew_run where
  "run_broken =
     \<lparr>run_result_str = '' aggregate '',
      run_edit_output = AttrRaises (ServiceError ''output'')\<rparr>"

definition env_crew_broken :: env where
  "env_crew_broken = env_direct\<lparr>crewai_imported := True, crew_kickoff := (\<lambda>c. Inr run_broken)\<rparr>"

section \<open>Properties\<close>

subsection \<open>Sequencing and exception handling\<close>

lemma bind_lift_Inr [simp]: "bind (lift (Inr x)) f = f x"
  by (cases "f x") (simp add: bind_def lift_def)

lemma bind_lift_Inl [simp]: "bind (lift (Inl e)) f = (Inl e, [])"
  by (simp add: bind_def lift_def)

lemma bind_ret [simp]: "bind (ret x) f = f x"
  by (cases "f x") (simp add: bind_def ret_def)

lemma bind_emit [simp]: "bind (emit ef) f = (fst (f ()), ef # snd (f ()))"
  by (cases "f ()") (simp add: bind_def emit_def)

lemma bind_Inr [simp]: "bind (Inr x, tr) f = (fst (f x), tr @ snd (f x))"
  by (cases "f x") (simp add: bind_def)

lemma bind_Inl [simp]: "bind (Inl e, tr) f = (Inl e, tr)"
  by (simp add: bind_def)

lemma fst_bind: "fst (bind m f) = (case fst m of Inl e \<Rightarrow> Inl e | Inr x \<Rightarrow> fst (f x))"
  by (cases m; cases "fst m") auto

lemma snd_bind: "snd (bind m f) = (case fst m of Inl e \<Rightarrow> snd m | Inr x \<Rightarrow> snd m @ snd (f x))"
  by (cases m; cases "fst m") auto

lemma try_except_Inr [simp]: "try_except (Inr x, tr) h = (Inr x, tr)"
  by (simp add: try_except_def)

lemma try_except_Inl [simp]: "try_except (Inl e, tr) h = (fst (h e), tr @ snd (h e))"
  by (cases "h e") (simp add: try_except_def)

lemma fst_ret [simp]: "fst (ret x) = Inr x" and snd_ret [simp]: "snd (ret x) = []"
  by (simp_all add: ret_def)

lemma fst_emit [simp]: "fst (emit ef) = Inr ()" and snd_emit [simp]: "snd (emit ef) = [ef]"
  by (simp_all add: emit_def)

lemma fst_lift [simp]: "fst (lift r) = r" and snd_lift [simp]: "snd (lift r) = []"
  by (simp_all add: lift_def)

lemma crewai_unavailable_iff: "crewai_unavailable w \<longleftrightarrow> \<not> crewai_imported w"
  by (simp add: crewai_unavailable_def crewai_symbols_def)

text \<open>The model call in full.\<close>

lemma bedrock_try_eq:
  "bedrock_try w rq =
     (case invoke_model w rq ''meta.llama2-13b-chat-v1'' of
        Inl e \<Rightarrow> (Inl e, [InvokeModel rq ''meta.llama2-13b-chat-v1''])
      | Inr response \<Rightarrow>
          (case read_body response of
             Inl e \<Rightarrow> (Inl e, [InvokeModel rq ''meta.llama2-13b-chat-v1''])
           | Inr content \<Rightarrow>
               (case json_parse w content of
                  None \<Rightarrow> (Inl JSONDecodeError, [InvokeModel rq ''meta.llama2-13b-chat-v1''])
                | Some data \<Rightarrow>
                    (py_getitem data ''generation'',
                     [InvokeModel rq ''meta.llama2-13b-chat-v1'', Print (py_str w data)]))))"
  by (simp add: bedrock_try_def json_loads_def split: sum.splits option.splits)

lemma direct_never_raises: "\<exists>v. fst (blog_generate_using_bedrock w t) = Inr v"
  by (cases "bedrock_try w (bedrock_body w t)"; cases "fst (bedrock_try w (bedrock_body w t))")
     (simp_all add: blog_generate_using_bedrock_def)

lemma fst_try_except:
  "fst (try_except m h) = (case fst m of Inl e \<Rightarrow> fst (h e) | Inr x \<Rightarrow> Inr x)"
  by (cases m; cases "fst m") auto

lemma snd_try_except:
  "snd (try_except m h) = (case fst m of Inl e \<Rightarrow> snd m @ snd (h e) | Inr x \<Rightarrow> snd m)"
  by (cases m; cases "fst m") auto

lemma bedrock_try_trace:
  "ef \<in> set (snd (bedrock_try w rq)) \<Longrightarrow> (\<exists>s. ef = Print s) \<or> (\<exists>b m. ef = InvokeModel b m)"
  by (auto simp: bedrock_try_eq split: sum.splits option.splits)

lemma direct_trace:
  "ef \<in> set (snd (blog_generate_using_bedrock w t)) \<Longrightarrow>
     (\<exists>s. ef = Print s) \<or> (\<exists>b m. ef = InvokeModel b m)"
  unfolding blog_generate_using_bedrock_def snd_try_except
  by (cases "fst (bedrock_try w (bedrock_body w t))") (auto dest: bedrock_try_trace)

text \<open>
  Claim C3. For every topic, direct generation returns a value and never raises: the
  \<^verbatim>\<open>generation\<close> field of the decoded payload when the call, the read and the decoding
  all succeed and the field is there, and the empty string when the call raises, the
  response has no body, the read raises, the payload is not JSON, or the decoded payload
  is not a dict with that field.
\<close>

theorem direct_generation_result:
  "fst (blog_generate_using_bedrock w blogtopic) =
     Inr (case invoke_model w (bedrock_body w blogtopic) ''meta.llama2-13b-chat-v1'' of
            Inl e \<Rightarrow> PStr []
          | Inr response \<Rightarrow>
             (case response_body response of
                None \<Rightarrow> PStr []
              | Some (Inl e) \<Rightarrow> PStr []
              | Some (Inr content) \<Rightarrow>
                 (case json_parse w content of
                    None \<Rightarrow> PStr []
                  | Some data \<Rightarrow>
                     (case py_getitem data ''generation'' of Inl e \<Rightarrow> PStr [] | Inr g \<Rightarrow> g))))"
  by (simp add: blog_generate_using_bedrock_def bedrock_try_eq read_body_def
           split: sum.splits option.splits)


subsection \<open>The two generation paths and the handler\<close>

lemma staged_unavailable:
  "\<not> crewai_imported w \<Longrightarrow>
   blog_generate_using_crewai_content_marketing w t b a tn kw wc =
     (fst (blog_generate_using_bedrock w t),
      Print ''CrewAI not available; falling back to direct Bedrock call.'' #
        snd (blog_generate_using_bedrock w t))"
  by (simp add: blog_generate_using_crewai_content_marketing_def crewai_unavailable_iff)

lemma staged_available:
  "crewai_imported w \<Longrightarrow>
   blog_generate_using_crewai_content_marketing w t b a tn kw wc =
     (case keywords_str kw of
        Inl e \<Rightarrow> (Inl e, [])
      | Inr k \<Rightarrow>
         (case crew_kickoff w (build_crew w t b a tn k wc) of
            Inl e \<Rightarrow> (Inl e, [Kickoff (build_crew w t b a tn k wc)])
          | Inr run \<Rightarrow> (Inr (PStr (extract_result run)), [Kickoff (build_crew w t b a tn k wc)])))"
  by (simp add: blog_generate_using_crewai_content_marketing_def crewai_unavailable_iff
           split: sum.splits)

lemma staged_trace:
  "ef \<in> set (snd (blog_generate_using_crewai_content_marketing w t b a tn kw wc)) \<Longrightarrow>
     (\<exists>s. ef = Print s) \<or> (\<exists>b m. ef = InvokeModel b m) \<or> (\<exists>c. ef = Kickoff c)"
  by (cases "crewai_imported w")
     (auto simp: staged_unavailable staged_available dest: direct_trace split: sum.splits)

lemma generate_no_put: "PutObject bk k v \<notin> set (snd (generate w r))"
  unfolding generate_def by (auto dest: staged_trace)

text \<open>
  Claim C2. When the framework's names did not load, the staged function returns what
  direct generation returns for the same topic; its trace is the notice of the fallback
  followed by the trace of direct generation, and no crew is ever started.
\<close>

theorem fallback_equals_direct:
  assumes "\<not> crewai_imported w"
  shows "fst (blog_generate_using_crewai_content_marketing w t b a tn kw wc) =
           fst (blog_generate_using_bedrock w t)
       \<and> snd (blog_generate_using_crewai_content_marketing w t b a tn kw wc) =
           Print ''CrewAI not available; falling back to direct Bedrock call.'' #
             snd (blog_generate_using_bedrock w t)
       \<and> (\<forall>c. Kickoff c \<notin> set (snd (blog_generate_using_crewai_content_marketing w t b a tn kw wc)))"
  using assms by (auto simp: staged_unavailable dest: direct_trace)

lemma parse_event_trace [simp]: "snd (parse_event w event0) = []"
  by (simp add: parse_event_def snd_bind split: sum.splits)

lemma parse_event_pair: "parse_event w event0 = (fst (parse_event w event0), [])"
  by (simp add: prod_eq_iff)

lemma save_client_fails:
  "s3_client w = Inl e \<Longrightarrow> save_blog_details_s3 w k bk g = (Inl e, [])"
  by (simp add: save_blog_details_s3_def)

lemma save_client_built:
  "s3_client w = Inr c \<Longrightarrow>
   save_blog_details_s3 w k bk g =
     (Inr (),
      [PutObject bk k g,
       Print (case c bk k g of
                None \<Rightarrow> ''Content saved to s3''
              | Some e \<Rightarrow> ''Error when saving the content to s3 '' @ exn_str w e)])"
  by (simp add: save_blog_details_s3_def put_object_def split: option.splits)

lemma persist_falsy:
  "\<not> truthy g \<Longrightarrow> persist w g = (Inr (), [Print ''No blog was generated''])"
  by (simp add: persist_def emit_def)

lemma handler_after_parse:
  assumes "fst (parse_event w event0) = Inr r"
  shows "lambda_handler w event0 =
           (case fst (generate w r) of
              Inl e \<Rightarrow> (Inl e, snd (generate w r))
            | Inr g \<Rightarrow>
                (case fst (persist w g) of Inl e \<Rightarrow> Inl e | Inr u \<Rightarrow> Inr completed,
                 snd (generate w r) @ snd (persist w g)))"
proof -
  have p: "parse_event w event0 = (Inr r, [])"
    using assms parse_event_pair [of w event0] by simp
  show ?thesis
    by (cases "generate w r"; cases "fst (generate w r)")
       (simp_all add: lambda_handler_def p fst_bind snd_bind split: sum.splits)
qed

text \<open>
  Claim C7. When the body of the event is not JSON, or the parsed body has no
  \<^verbatim>\<open>blog_topic\<close>, the handler raises with an empty trace: nothing was sent to the
  model, no crew was started, nothing was written or printed.
\<close>

theorem missing_topic_fails_first:
  assumes "py_getitem event0 ''body'' = Inr b"
    and "json_loads w b = Inl e \<or>
         (\<exists>ev. json_loads w b = Inr ev \<and> py_getitem ev ''blog_topic'' = Inl e)"
  shows "lambda_handler w event0 = (Inl e, [])"
  using assms by (auto simp: lambda_handler_def parse_event_def)

text \<open>
  Claim C10. When the pipeline returns the empty string, the handler prints that no blog
  was generated, issues no object-store write, and returns the completion envelope.
\<close>

theorem empty_text_skips_store:
  assumes "fst (parse_event w event0) = Inr r"
    and "generate w r = (Inr (PStr []), tr)"
  shows "lambda_handler w event0 = (Inr completed, tr @ [Print ''No blog was generated''])
       \<and> (\<forall>bk k v. PutObject bk k v \<notin> set (snd (lambda_handler w event0)))"
proof -
  have h: "lambda_handler w event0 = (Inr completed, tr @ [Print ''No blog was generated''])"
    using assms by (simp add: handler_after_parse persist_falsy)
  have "PutObject bk k v \<notin> set tr" for bk k v
    using generate_no_put [of bk k v w r] assms(2) by simp
  with h show ?thesis by simp
qed

text \<open>
  Claim C8. When the generated text is non-empty and the write of the object-store
  client raises, the persistence function catches the exception, prints it and returns
  normally, and the handler returns the completion envelope with status 200.
\<close>

theorem store_failure_keeps_envelope:
  assumes "fst (parse_event w event0) = Inr r"
    and "generate w r = (Inr g, tr)"
    and "truthy g"
    and "s3_client w = Inr c"
    and "c ''aws_bedrock_course1'' (s3_key_now w) g = Some e"
  shows "save_blog_details_s3 w (s3_key_now w) ''aws_bedrock_course1'' g =
           (Inr (), [PutObject ''aws_bedrock_course1'' (s3_key_now w) g,
                     Print (''Error when saving the content to s3 '' @ exn_str w e)])
       \<and> lambda_handler w event0 =
           (Inr completed,
            tr @ [PutObject ''aws_bedrock_course1'' (s3_key_now w) g,
                  Print (''Error when saving the content to s3 '' @ exn_str w e)])
       \<and> statusCode completed = 200
       \<and> body completed = dq @ ''Blog generation is completed'' @ dq"
  using assms
  by (simp add: handler_after_parse persist_def save_client_built completed_def
        json_dumps_str_def json_escape_char_def dq_def)

subsection \<open>The properties on the sample invocations\<close>

lemma parse_event_cats [simp]: "parse_event env_direct event_cats = (Inr request_cats, [])"
  by (simp add: parse_event_def event_cats_def env_direct_def json_loads_def sample_parse_def
        request_cats_def ret_def)

lemma direct_cats:
  "blog_generate_using_bedrock env_direct (PStr ''cats'') =
     (Inr (PStr ''Cats purr.''),
      [InvokeModel (bedrock_body env_direct (PStr ''cats'')) ''meta.llama2-13b-chat-v1'',
       Print ''<value>''])"
  by (simp add: blog_generate_using_bedrock_def bedrock_try_eq read_body_def env_direct_def
        sample_parse_def payload_cats_def body_cats_def dq_def py_str_def)

theorem fallback_equals_direct_witness:
  "\<not> crewai_imported env_direct
   \<and> fst (blog_generate_using_crewai_content_marketing env_direct (PStr ''cats'') PNone PNone PNone
          PNone (PInt 700)) = Inr (PStr ''Cats purr.'')
   \<and> fst (blog_generate_using_bedrock env_direct (PStr ''cats'')) = Inr (PStr ''Cats purr.'')"
proof -
  have h: "\<not> crewai_imported env_direct" by (simp add: env_direct_def)
  from fallback_equals_direct [OF h, of "PStr ''cats''" PNone PNone PNone PNone "PInt 700"] h
  show ?thesis by (simp add: direct_cats)
qed

theorem direct_generation_result_witness:
  "fst (blog_generate_using_bedrock env_direct (PStr ''cats'')) = Inr (PStr ''Cats purr.'')
   \<and> fst (blog_generate_using_bedrock env_model_down (PStr ''cats'')) = Inr (PStr [])"
  using direct_generation_result [of env_direct "PStr ''cats''"]
        direct_generation_result [of env_model_down "PStr ''cats''"]
  by (simp add: env_model_down_def env_direct_def sample_parse_def payload_cats_def
        body_cats_def dq_def)

theorem missing_topic_fails_first_witness:
  "py_getitem event_no_topic ''body'' = Inr (PStr ''{}'')
   \<and> json_loads env_direct (PStr ''{}'') = Inr (PDict [])
   \<and> py_getitem (PDict []) ''blog_topic'' = Inl (KeyError ''blog_topic'')
   \<and> lambda_handler env_direct event_no_topic = (Inl (KeyError ''blog_topic''), [])
   \<and> py_getitem event_malformed ''body'' = Inr (PStr ''{blog_topic'')
   \<and> json_loads env_direct (PStr ''{blog_topic'') = Inl JSONDecodeError
   \<and> lambda_handler env_direct event_malformed = (Inl JSONDecodeError, [])"
proof -
  have a1: "py_getitem event_no_topic ''body'' = Inr (PStr ''{}'')"
    by (simp add: event_no_topic_def)
  have a2: "json_loads env_direct (PStr ''{}'') = Inr (PDict [])"
    by (simp add: json_loads_def env_direct_def sample_parse_def body_cats_def payload_cats_def)
  have a3: "py_getitem (PDict []) ''blog_topic'' = Inl (KeyError ''blog_topic'')"
    by simp
  have b1: "py_getitem event_malformed ''body'' = Inr (PStr ''{blog_topic'')"
    by (simp add: event_malformed_def)
  have b2: "json_loads env_direct (PStr ''{blog_topic'') = Inl JSONDecodeError"
    by (simp add: json_loads_def env_direct_def sample_parse_def body_cats_def payload_cats_def
          dq_def)
  have a: "lambda_handler env_direct event_no_topic = (Inl (KeyError ''blog_topic''), [])"
    using a2 a3 by (intro missing_topic_fails_first [OF a1]) blast
  have b: "lambda_handler env_direct event_malformed = (Inl JSONDecodeError, [])"
    using b2 by (intro missing_topic_fails_first [OF b1]) blast
  from a1 a2 a3 b1 b2 a b show ?thesis by blast
qed

lemma generate_model_down:
  "generate env_model_down request_cats =
     (Inr (PStr []),
      [Print ''CrewAI not available; falling back to direct Bedrock call.'',
       InvokeModel (bedrock_body env_model_down (PStr ''cats'')) ''meta.llama2-13b-chat-v1'',
       Print ''Error generating the blog:<error>''])"
  by (simp add: generate_def request_cats_def staged_unavailable env_model_down_def
        env_direct_def blog_generate_using_bedrock_def bedrock_try_eq)

lemma parse_event_env_indep:
  assumes "json_parse w = json_parse w'"
  shows "parse_event w ev = parse_event w' ev"
proof -
  have "json_loads w = json_loads w'"
    by (rule ext) (simp add: json_loads_def assms split: pyval.splits)
  then show ?thesis
    by (simp only: parse_event_def)
qed

theorem empty_text_skips_store_witness:
  "fst (parse_event env_model_down event_cats) = Inr request_cats
   \<and> fst (generate env_model_down request_cats) = Inr (PStr [])
   \<and> fst (lambda_handler env_model_down event_cats) = Inr completed
   \<and> PutObject ''aws_bedrock_course1'' (s3_key_now env_model_down) (PStr [])
        \<notin> set (snd (lambda_handler env_model_down event_cats))"
proof -
  have p: "parse_event env_model_down event_cats = parse_event env_direct event_cats"
    by (rule parse_event_env_indep) (simp add: env_model_down_def)
  have h1: "fst (parse_event env_model_down event_cats) = Inr request_cats"
    by (simp add: p)
  from empty_text_skips_store [OF h1 generate_model_down] h1 generate_model_down
  show ?thesis by simp
qed

lemma generate_store_down:
  "generate env_store_down request_cats =
     (Inr (PStr ''Cats purr.''),
      [Print ''CrewAI not available; falling back to direct Bedrock call.'',
       InvokeModel (bedrock_body env_store_down (PStr ''cats'')) ''meta.llama2-13b-chat-v1'',
       Print ''<value>''])"
  by (simp add: generate_def request_cats_def staged_unavailable env_store_down_def
        env_direct_def blog_generate_using_bedrock_def bedrock_try_eq read_body_def
        sample_parse_def payload_cats_def body_cats_def dq_def py_str_def)

theorem store_failure_keeps_envelope_witness:
  "fst (parse_event env_store_down event_cats) = Inr request_cats
   \<and> fst (generate env_store_down request_cats) = Inr (PStr ''Cats purr.'')
   \<and> truthy (PStr ''Cats purr.'')
   \<and> s3_client env_store_down = Inr (\<lambda>b k v. Some (ServiceError ''AccessDenied''))
   \<and> fst (lambda_handler env_store_down event_cats) = Inr completed
   \<and> last (snd (lambda_handler env_store_down event_cats)) =
        Print ''Error when saving the content to s3 <error>''"
proof -
  have p: "parse_event env_store_down event_cats = parse_event env_direct event_cats"
    by (rule parse_event_env_indep) (simp add: env_store_down_def)
  have h1: "fst (parse_event env_store_down event_cats) = Inr request_cats"
    by (simp add: p)
  have h3: "truthy (PStr ''Cats purr.'')" by simp
  have h4: "s3_client env_store_down = Inr (\<lambda>b k v. Some (ServiceError ''AccessDenied''))"
    by (simp add: env_store_down_def)
  have h5: "(\<lambda>b k v. Some (ServiceError ''AccessDenied'')) ''aws_bedrock_course1''
      (s3_key_now env_store_down) (PStr ''Cats purr.'') = Some (ServiceError ''AccessDenied'')"
    by simp
  have x: "exn_str env_store_down (ServiceError ''AccessDenied'') = ''<error>''"
    by (simp add: env_store_down_def env_direct_def)
  from store_failure_keeps_envelope [OF h1 generate_store_down h3 h4 h5] h1 h3 h4
  show ?thesis by (simp add: generate_store_down x)
qed

subsection \<open>The timestamp of the key\<close>

lemma of_char_digit [simp]: "(of_char (digit n) :: nat) = 48 + n mod 10"
proof -
  have "(48 + n mod 10) mod 256 = 48 + n mod 10"
    by (rule mod_less) (use mod_less_divisor [of 10 n] in linarith)
  then show ?thesis by (simp add: digit_def)
qed

lemma is_digit_digit [simp]: "is_digit (digit n)"
proof -
  have "n mod 10 < 10" by simp
  then show ?thesis unfolding is_digit_def of_char_digit by linarith
qed

lemma read_decimal_pad2: "n < 100 \<Longrightarrow> read_decimal (pad2 n) = n"
  by (simp add: read_decimal_def pad2_def)

lemma read_decimal_pad4:
  assumes "n < 10000"
  shows "read_decimal (pad4 n) = n"
proof -
  have c: "n div 1000 mod 10 = n div 1000"
    using assms by simp
  have b1: "n div 100 div 10 = n div 1000" and a1: "n div 10 div 10 = n div 100"
    by (simp_all add: div_mult2_eq)
  have b: "n div 100 = 10 * (n div 1000) + n div 100 mod 10"
    using div_mult_mod_eq [of "n div 100" 10] unfolding b1 by linarith
  have a: "n div 10 = 10 * (n div 100) + n div 10 mod 10"
    using div_mult_mod_eq [of "n div 10" 10] unfolding a1 by linarith
  have n: "n = 10 * (n div 10) + n mod 10"
    using div_mult_mod_eq [of n 10] by linarith
  have "read_decimal (pad4 n) =
          10 * (10 * (10 * (n div 1000 mod 10) + n div 100 mod 10) + n div 10 mod 10) + n mod 10"
    by (simp add: read_decimal_def pad4_def)
  also have "\<dots> = 10 * (10 * (n div 100) + n div 10 mod 10) + n mod 10"
    by (simp only: c b [symmetric])
  also have "\<dots> = 10 * (n div 10) + n mod 10"
    by (simp only: a [symmetric])
  also have "\<dots> = n"
    by (simp only: n [symmetric])
  finally show ?thesis .
qed

lemma strftime_parts:
  "take 4 (strftime_YmdHMS d) = pad4 (dt_year d)"
  "take 2 (drop 4 (strftime_YmdHMS d)) = pad2 (dt_month d)"
  "take 2 (drop 6 (strftime_YmdHMS d)) = pad2 (dt_day d)"
  "strftime_YmdHMS d ! 8 = CHR ''-''"
  "take 2 (drop 9 (strftime_YmdHMS d)) = pad2 (dt_hour d)"
  "take 2 (drop 11 (strftime_YmdHMS d)) = pad2 (dt_minute d)"
  "drop 13 (strftime_YmdHMS d) = pad2 (dt_second d)"
  "length (strftime_YmdHMS d) = 15"
  by (simp_all add: strftime_YmdHMS_def pad4_def pad2_def)

lemma strftime_digits:
  "list_all is_digit (take 8 (strftime_YmdHMS d) @ drop 9 (strftime_YmdHMS d))"
  by (simp add: strftime_YmdHMS_def pad4_def pad2_def)

subsection \<open>What is written, and where\<close>

lemma handler_trace_nonempty_text:
  assumes "fst (parse_event w event0) = Inr r"
    and "generate w r = (Inr g, tr)"
    and "truthy g"
    and "s3_client w = Inr c"
  shows "snd (lambda_handler w event0) =
           tr @ [PutObject ''aws_bedrock_course1'' (s3_key_now w) g,
                 Print (case c ''aws_bedrock_course1'' (s3_key_now w) g of
                          None \<Rightarrow> ''Content saved to s3''
                        | Some e \<Rightarrow> ''Error when saving the content to s3 '' @ exn_str w e)]"
  using assms by (simp add: handler_after_parse persist_def save_client_built)

lemma generate_client_down:
  "generate env_client_down request_cats =
     (Inr (PStr ''Cats purr.''),
      [Print ''CrewAI not available; falling back to direct Bedrock call.'',
       InvokeModel (bedrock_body env_client_down (PStr ''cats'')) ''meta.llama2-13b-chat-v1'',
       Print ''<value>''])"
  by (simp add: generate_def request_cats_def staged_unavailable env_client_down_def
        env_direct_def blog_generate_using_bedrock_def bedrock_try_eq read_body_def
        sample_parse_def payload_cats_def body_cats_def dq_def py_str_def)

text \<open>Claim C9 as stated fails: the pipeline returns a non-empty text, building the
  object-store client raises, and the handler ends with that exception having issued no
  write at all.\<close>

theorem no_write_without_client:
  "fst (parse_event env_client_down event_cats) = Inr request_cats
   \<and> fst (generate env_client_down request_cats) = Inr (PStr ''Cats purr.'')
   \<and> truthy (PStr ''Cats purr.'')
   \<and> lambda_handler env_client_down event_cats =
       (Inl (ServiceError ''ProfileNotFound''),
        [Print ''CrewAI not available; falling back to direct Bedrock call.'',
         InvokeModel (bedrock_body env_client_down (PStr ''cats'')) ''meta.llama2-13b-chat-v1'',
         Print ''<value>''])"
proof -
  have p: "parse_event env_client_down event_cats = parse_event env_direct event_cats"
    by (rule parse_event_env_indep) (simp add: env_client_down_def)
  have h: "fst (parse_event env_client_down event_cats) = Inr request_cats"
    by (simp add: p)
  have c: "s3_client env_client_down = Inl (ServiceError ''ProfileNotFound'')"
    by (simp add: env_client_down_def)
  show ?thesis
    using h by (simp add: handler_after_parse [OF h] generate_client_down persist_def
                  save_client_fails [OF c])
qed

text \<open>
  Claim C9, amended. When the pipeline returns a non-empty text and the object-store
  client is built, the handler issues exactly one object-store write: to the bucket
  \<^verbatim>\<open>aws_bedrock_course1\<close>, under the key \<^verbatim>\<open>blog-output/\<close> followed by the timestamp
  and \<^verbatim>\<open>.txt\<close>, with the text itself as the body. The timestamp has fifteen
  characters, digits around a hyphen at position 8, and reads back as the year, month,
  day, hour, minute and second of the clock.
\<close>

theorem text_written_verbatim:
  assumes "fst (parse_event w event0) = Inr r"
    and "generate w r = (Inr g, tr)"
    and "truthy g"
    and "s3_client w = Inr c"
    and "valid_datetime (clock_now w)"
  shows "(\<exists>p. snd (lambda_handler w event0) =
              tr @ [PutObject ''aws_bedrock_course1''
                      (''blog-output/'' @ strftime_YmdHMS (clock_now w) @ ''.txt'') g,
                    Print p])
       \<and> (\<forall>bk k v. PutObject bk k v \<notin> set tr)
       \<and> length (strftime_YmdHMS (clock_now w)) = 15
       \<and> strftime_YmdHMS (clock_now w) ! 8 = CHR ''-''
       \<and> list_all is_digit (take 8 (strftime_YmdHMS (clock_now w)) @
                            drop 9 (strftime_YmdHMS (clock_now w)))
       \<and> read_decimal (take 4 (strftime_YmdHMS (clock_now w))) = dt_year (clock_now w)
       \<and> read_decimal (take 2 (drop 4 (strftime_YmdHMS (clock_now w)))) = dt_month (clock_now w)
       \<and> read_decimal (take 2 (drop 6 (strftime_YmdHMS (clock_now w)))) = dt_day (clock_now w)
       \<and> read_decimal (take 2 (drop 9 (strftime_YmdHMS (clock_now w)))) = dt_hour (clock_now w)
       \<and> read_decimal (take 2 (drop 11 (strftime_YmdHMS (clock_now w)))) = dt_minute (clock_now w)
       \<and> read_decimal (drop 13 (strftime_YmdHMS (clock_now w))) = dt_second (clock_now w)"
proof -
  have put: "\<exists>p. snd (lambda_handler w event0) =
              tr @ [PutObject ''aws_bedrock_course1''
                      (''blog-output/'' @ strftime_YmdHMS (clock_now w) @ ''.txt'') g,
                    Print p]"
    using handler_trace_nonempty_text [OF assms(1-4)] by (simp add: s3_key_now_def)
  have once: "\<forall>bk k v. PutObject bk k v \<notin> set tr"
  proof (intro allI)
    fix bk k v
    show "PutObject bk k v \<notin> set tr"
      using generate_no_put [of bk k v w r] assms(2) by simp
  qed
  have v: "dt_year (clock_now w) < 10000" "dt_month (clock_now w) < 100"
    "dt_day (clock_now w) < 100" "dt_hour (clock_now w) < 100"
    "dt_minute (clock_now w) < 100" "dt_second (clock_now w) < 100"
    using assms(5) by (simp_all add: valid_datetime_def)
  show ?thesis
    using put once v
    by (simp only: strftime_parts strftime_digits read_decimal_pad2 read_decimal_pad4 simp_thms)
qed

theorem text_written_verbatim_witness:
  "fst (parse_event env_direct event_cats) = Inr request_cats
   \<and> fst (generate env_direct request_cats) = Inr (PStr ''Cats purr.'')
   \<and> truthy (PStr ''Cats purr.'')
   \<and> s3_client env_direct = Inr (\<lambda>b k v. None)
   \<and> valid_datetime (clock_now env_direct)
   \<and> snd (lambda_handler env_direct event_cats) =
       snd (generate env_direct request_cats) @
       [PutObject ''aws_bedrock_course1'' ''blog-output/20240102-030405.txt'' (PStr ''Cats purr.''),
        Print ''Content saved to s3'']"
proof -
  have h1: "fst (parse_event env_direct event_cats) = Inr request_cats"
    by simp
  have ci: "\<not> crewai_imported env_direct"
    by (simp add: env_direct_def)
  have h2: "generate env_direct request_cats =
      (Inr (PStr ''Cats purr.''),
       Print ''CrewAI not available; falling back to direct Bedrock call.'' #
         snd (blog_generate_using_bedrock env_direct (PStr ''cats'')))"
    by (simp add: generate_def request_cats_def staged_unavailable [OF ci] direct_cats)
  have h3: "truthy (PStr ''Cats purr.'')"
    by simp
  have h4: "valid_datetime (clock_now env_direct)"
    by (simp add: valid_datetime_def env_direct_def)
  have k: "strftime_YmdHMS (clock_now env_direct) = ''20240102-030405''"
    by (simp add: env_direct_def strftime_YmdHMS_def pad4_def pad2_def digit_def char_of_def bit_0)
  have s: "s3_client env_direct = Inr (\<lambda>b k v. None)"
    by (simp add: env_direct_def)
  from text_written_verbatim [OF h1 h2 h3 s h4]
  obtain p where p: "snd (lambda_handler env_direct event_cats) =
      (Print ''CrewAI not available; falling back to direct Bedrock call.'' #
         snd (blog_generate_using_bedrock env_direct (PStr ''cats''))) @
      [PutObject ''aws_bedrock_course1''
         (''blog-output/'' @ strftime_YmdHMS (clock_now env_direct) @ ''.txt'') (PStr ''Cats purr.''),
       Print p]"
    by blast
  have "Print p = Print ''Content saved to s3''"
    using p handler_trace_nonempty_text [OF h1 h2 h3 s] by simp
  with p h1 h2 h3 h4 s show ?thesis
    by (simp add: k)
qed

subsection \<open>The crew and the exceptions that escape\<close>

lemma agents_distinct: "distinct [researcher, strategist, writer, editor]"
  by (simp add: researcher_def strategist_def writer_def editor_def)

lemma build_crew_tasks:
  "\<exists>research outline write edit.
     crew_tasks (build_crew w t b a tn k wc) = [research, outline, write, edit] \<and>
     task_agent research = researcher \<and> task_agent outline = strategist \<and>
     task_agent write = writer \<and> task_agent edit = editor \<and>
     task_context research = None \<and>
     task_context outline = Some [research] \<and>
     task_context write = Some [research, outline] \<and>
     task_context edit = Some [research, outline, write]"
  by (simp add: build_crew_def Let_def research_task_def outline_task_def write_task_def
        edit_task_def)

text \<open>
  Claim C6. The crew of a staged run is sequential, its tasks are research, outline,
  write and edit in this order, each with its own agent, and the context of each task is
  the list of the tasks before it: none for research, research for outline, research and
  outline for write, and the first three for edit. The four tasks are distinct, so no
  task reads itself or a later one. This crew is the one handed to the framework's run.
\<close>

theorem stage_contexts_are_prior_stages:
  "crew_process (build_crew w t b a tn k wc) = Sequential
   \<and> crew_agents (build_crew w t b a tn k wc) = [researcher, strategist, writer, editor]
   \<and> map task_agent (crew_tasks (build_crew w t b a tn k wc)) =
        [researcher, strategist, writer, editor]
   \<and> distinct (crew_tasks (build_crew w t b a tn k wc))
   \<and> task_context (crew_tasks (build_crew w t b a tn k wc) ! 0) = None
   \<and> task_context (crew_tasks (build_crew w t b a tn k wc) ! 1) =
        Some (take 1 (crew_tasks (build_crew w t b a tn k wc)))
   \<and> task_context (crew_tasks (build_crew w t b a tn k wc) ! 2) =
        Some (take 2 (crew_tasks (build_crew w t b a tn k wc)))
   \<and> task_context (crew_tasks (build_crew w t b a tn k wc) ! 3) =
        Some (take 3 (crew_tasks (build_crew w t b a tn k wc)))
   \<and> (crewai_imported w \<and> keywords_str kw = Inr k \<longrightarrow>
        snd (blog_generate_using_crewai_content_marketing w t b a tn kw wc) =
          [Kickoff (build_crew w t b a tn k wc)])"
proof -
  obtain research outline wr edit where
    ts: "crew_tasks (build_crew w t b a tn k wc) = [research, outline, wr, edit]"
    and ag: "task_agent research = researcher" "task_agent outline = strategist"
      "task_agent wr = writer" "task_agent edit = editor"
    and cx: "task_context research = None" "task_context outline = Some [research]"
      "task_context wr = Some [research, outline]"
      "task_context edit = Some [research, outline, wr]"
    using build_crew_tasks [of w t b a tn k wc] by blast
  have "distinct (map task_agent [research, outline, wr, edit])"
    using agents_distinct by (simp add: ag)
  then have d: "distinct [research, outline, wr, edit]"
    by (simp only: distinct_map)
  have p: "crew_process (build_crew w t b a tn k wc) = Sequential"
    "crew_agents (build_crew w t b a tn k wc) = [researcher, strategist, writer, editor]"
    by (simp_all add: build_crew_def Let_def)
  have run: "crewai_imported w \<and> keywords_str kw = Inr k \<longrightarrow>
      snd (blog_generate_using_crewai_content_marketing w t b a tn kw wc) =
        [Kickoff (build_crew w t b a tn k wc)]"
    by (auto simp: staged_available split: sum.splits)
  have c: "task_context ([research, outline, wr, edit] ! 0) = None"
    "task_context ([research, outline, wr, edit] ! 1) = Some (take 1 [research, outline, wr, edit])"
    "task_context ([research, outline, wr, edit] ! 2) = Some (take 2 [research, outline, wr, edit])"
    "task_context ([research, outline, wr, edit] ! 3) = Some (take 3 [research, outline, wr, edit])"
    by (simp_all add: cx numeral_2_eq_2 numeral_3_eq_3)
  show ?thesis
    unfolding ts using p d run c ag by (simp add: ts)
qed

theorem stage_contexts_are_prior_stages_witness:
  "crewai_imported env_crew_padded \<and> keywords_str PNone = Inr []
   \<and> snd (blog_generate_using_crewai_content_marketing env_crew_padded (PStr ''cats'') PNone PNone
          PNone PNone (PInt 700)) =
       [Kickoff (build_crew env_crew_padded (PStr ''cats'') PNone PNone PNone [] (PInt 700))]
   \<and> task_context (crew_tasks (build_crew env_crew_padded (PStr ''cats'') PNone PNone PNone []
         (PInt 700)) ! 0) = None"
proof -
  have h: "crewai_imported env_crew_padded \<and> keywords_str PNone = Inr []"
    by (simp add: env_crew_padded_def keywords_str_def)
  from stage_contexts_are_prior_stages
    [of env_crew_padded "PStr ''cats''" PNone PNone PNone "[]" "PInt 700" PNone] h
  show ?thesis by blast
qed

text \<open>Claim C4 as stated fails: the framework's run raises and the exception escapes.\<close>

theorem staged_exception_escapes:
  "fst (blog_generate_using_crewai_content_marketing env_crew_fails (PStr ''cats'') PNone PNone
          PNone PNone (PInt 700)) = Inl (ServiceError ''stage failed'')"
  by (simp add: staged_available env_crew_fails_def keywords_str_def)

text \<open>
  Claim C4, amended. When the framework is unavailable the pipeline call returns a value
  and raises nothing. When it is available the call raises exactly when joining the
  keywords raises or the framework's run raises; otherwise it returns the extracted
  text, whatever happens while the editor's output is read.
\<close>

theorem pipeline_raises_only_from_framework:
  "(\<not> crewai_imported w \<longrightarrow>
      (\<exists>v. fst (blog_generate_using_crewai_content_marketing w t b a tn kw wc) = Inr v))
   \<and> (crewai_imported w \<longrightarrow>
        fst (blog_generate_using_crewai_content_marketing w t b a tn kw wc) =
          (case keywords_str kw of
             Inl e \<Rightarrow> Inl e
           | Inr k \<Rightarrow>
              (case crew_kickoff w (build_crew w t b a tn k wc) of
                 Inl e \<Rightarrow> Inl e
               | Inr run \<Rightarrow> Inr (PStr (extract_result run)))))"
  using direct_never_raises [of w t]
  by (auto simp: staged_unavailable staged_available split: sum.splits)

theorem pipeline_raises_only_from_framework_witness:
  "\<not> crewai_imported env_model_down
   \<and> fst (blog_generate_using_crewai_content_marketing env_model_down (PStr ''cats'') PNone PNone
          PNone PNone (PInt 700)) = Inr (PStr [])
   \<and> crewai_imported env_crew_broken
   \<and> fst (blog_generate_using_crewai_content_marketing env_crew_broken (PStr ''cats'') PNone PNone
          PNone PNone (PInt 700)) = Inr (PStr ''aggregate'')
   \<and> fst (blog_generate_using_crewai_content_marketing env_crew_broken (PStr ''cats'') PNone PNone
          PNone (PInt 5) (PInt 700)) = Inl TypeError"
proof -
  have a: "\<not> crewai_imported env_model_down"
    by (simp add: env_model_down_def env_direct_def)
  have b: "crewai_imported env_crew_broken"
    by (simp add: env_crew_broken_def)
  have g: "fst (blog_generate_using_crewai_content_marketing env_model_down (PStr ''cats'') PNone
     PNone PNone PNone (PInt 700)) = Inr (PStr [])"
    using generate_model_down by (simp add: generate_def request_cats_def)
  have k: "crew_kickoff env_crew_broken = (\<lambda>c. Inr run_broken)"
    by (simp add: env_crew_broken_def)
  have x: "extract_result run_broken = ''aggregate''"
    by (simp add: extract_result_def extract_try_def edit_final_text_def getattr_default_def
          run_broken_def py_strip_def py_isspace_def)
  from pipeline_raises_only_from_framework
         [of env_crew_broken "PStr ''cats''" PNone PNone PNone PNone "PInt 700"]
       pipeline_raises_only_from_framework
         [of env_crew_broken "PStr ''cats''" PNone PNone PNone "PInt 5" "PInt 700"]
       a b g
  show ?thesis by (simp add: k x keywords_str_def)
qed

text \<open>Claim C1 as stated fails: the event parses, the framework's run raises, and the
  handler raises instead of returning the envelope.\<close>

theorem handler_raises_after_parsing:
  "fst (parse_event env_crew_fails event_cats) = Inr request_cats
   \<and> fst (lambda_handler env_crew_fails event_cats) = Inl (ServiceError ''stage failed'')"
proof -
  have p: "parse_event env_crew_fails event_cats = parse_event env_direct event_cats"
    by (rule parse_event_env_indep) (simp add: env_crew_fails_def)
  have h: "fst (parse_event env_crew_fails event_cats) = Inr request_cats"
    by (simp add: p)
  have g: "fst (generate env_crew_fails request_cats) = Inl (ServiceError ''stage failed'')"
    by (simp add: generate_def request_cats_def staged_available env_crew_fails_def
          keywords_str_def)
  show ?thesis
    using h g by (simp add: handler_after_parse [OF h])
qed

text \<open>
  Claim C1, amended. When the event parses, an exception of the pipeline call leaves the
  handler as it is. When the pipeline call returns, as it always does when the framework
  is unavailable, and the text is empty or the object-store client is built, the handler
  returns the envelope with status 200 and the JSON encoding of the completion message,
  whatever text was generated and whatever the write answered.
\<close>

theorem handler_returns_completed:
  assumes "fst (parse_event w event0) = Inr r"
  shows "(\<forall>e. fst (generate w r) = Inl e \<longrightarrow> fst (lambda_handler w event0) = Inl e)
       \<and> (\<forall>g. fst (generate w r) = Inr g \<and> (\<not> truthy g \<or> (\<exists>c. s3_client w = Inr c)) \<longrightarrow>
              fst (lambda_handler w event0) = Inr completed)
       \<and> (\<not> crewai_imported w \<longrightarrow> (\<exists>g. fst (generate w r) = Inr g))
       \<and> statusCode completed = 200
       \<and> body completed = dq @ ''Blog generation is completed'' @ dq"
proof -
  have raises: "\<forall>e. fst (generate w r) = Inl e \<longrightarrow> fst (lambda_handler w event0) = Inl e"
    by (simp add: handler_after_parse [OF assms])
  have returns: "fst (lambda_handler w event0) = Inr completed"
    if gen: "fst (generate w r) = Inr g"
      and cl: "\<not> truthy g \<or> (\<exists>c. s3_client w = Inr c)" for g
  proof (cases "truthy g")
    case False
    then show ?thesis
      using gen by (simp add: handler_after_parse [OF assms] persist_falsy)
  next
    case True
    with cl obtain c where "s3_client w = Inr c"
      by blast
    then show ?thesis
      using gen True
      by (simp add: handler_after_parse [OF assms] persist_def save_client_built)
  qed
  have direct: "\<not> crewai_imported w \<longrightarrow> (\<exists>g. fst (generate w r) = Inr g)"
    using direct_never_raises [of w "req_blogtopic r"]
    by (auto simp: generate_def staged_unavailable)
  have envelope: "statusCode completed = 200"
    "body completed = dq @ ''Blog generation is completed'' @ dq"
    by (simp_all add: completed_def json_dumps_str_def json_escape_char_def dq_def)
  show ?thesis
    using raises returns direct envelope by blast
qed

lemma generate_all_down:
  "generate env_all_down request_cats =
     (Inr (PStr []),
      [Print ''CrewAI not available; falling back to direct Bedrock call.'',
       InvokeModel (bedrock_body env_all_down (PStr ''cats'')) ''meta.llama2-13b-chat-v1'',
       Print ''Error generating the blog:<error>''])"
  by (simp add: generate_def request_cats_def staged_unavailable env_all_down_def
        env_model_down_def env_direct_def blog_generate_using_bedrock_def bedrock_try_eq)

theorem handler_returns_completed_witness:
  "fst (parse_event env_crew_fails event_cats) = Inr request_cats
   \<and> fst (generate env_crew_fails request_cats) = Inl (ServiceError ''stage failed'')
   \<and> fst (lambda_handler env_crew_fails event_cats) = Inl (ServiceError ''stage failed'')
   \<and> fst (parse_event env_all_down event_cats) = Inr request_cats
   \<and> \<not> crewai_imported env_all_down
   \<and> fst (generate env_all_down request_cats) = Inr (PStr [])
   \<and> \<not> truthy (PStr [])
   \<and> fst (lambda_handler env_all_down event_cats) = Inr completed
   \<and> fst (parse_event env_store_down event_cats) = Inr request_cats
   \<and> fst (generate env_store_down request_cats) = Inr (PStr ''Cats purr.'')
   \<and> s3_client env_store_down = Inr (\<lambda>b k v. Some (ServiceError ''AccessDenied''))
   \<and> fst (lambda_handler env_store_down event_cats) = Inr completed"
proof -
  have p: "parse_event env_crew_fails event_cats = parse_event env_direct event_cats"
    "parse_event env_all_down event_cats = parse_event env_direct event_cats"
    "parse_event env_store_down event_cats = parse_event env_direct event_cats"
    by (rule parse_event_env_indep, simp add: env_crew_fails_def)
       (rule parse_event_env_indep, simp add: env_all_down_def env_model_down_def,
        rule parse_event_env_indep, simp add: env_store_down_def)
  have h1: "fst (parse_event env_crew_fails event_cats) = Inr request_cats"
    and h2: "fst (parse_event env_all_down event_cats) = Inr request_cats"
    and h3: "fst (parse_event env_store_down event_cats) = Inr request_cats"
    by (simp_all add: p)
  have g1: "fst (generate env_crew_fails request_cats) = Inl (ServiceError ''stage failed'')"
    by (simp add: generate_def request_cats_def staged_available env_crew_fails_def
          keywords_str_def)
  have g2: "fst (generate env_all_down request_cats) = Inr (PStr [])"
    by (simp add: generate_all_down)
  have g3: "fst (generate env_store_down request_cats) = Inr (PStr ''Cats purr.'')"
    by (simp add: generate_store_down)
  have a: "\<not> crewai_imported env_all_down"
    by (simp add: env_all_down_def env_model_down_def env_direct_def)
  have e: "\<not> truthy (PStr [])"
    by simp
  have c: "s3_client env_store_down = Inr (\<lambda>b k v. Some (ServiceError ''AccessDenied''))"
    by (simp add: env_store_down_def)
  from handler_returns_completed [OF h1] g1
  have r1: "fst (lambda_handler env_crew_fails event_cats) = Inl (ServiceError ''stage failed'')"
    by blast
  from handler_returns_completed [OF h2] g2 e
  have r2: "fst (lambda_handler env_all_down event_cats) = Inr completed"
    by blast
  from handler_returns_completed [OF h3] g3 c
  have r3: "fst (lambda_handler env_store_down event_cats) = Inr completed"
    by blast
  from h1 g1 r1 h2 a g2 e r2 h3 g3 c r3 show ?thesis
    by blast
qed

subsection \<open>The text the staged path returns\<close>

lemma py_strip_clean:
  assumes "s \<noteq> []" and "\<not> py_isspace (hd s)" and "\<not> py_isspace (last s)"
  shows "py_strip s = s"
proof -
  have a: "dropWhile py_isspace s = s"
    using assms(1,2) by (cases s) simp_all
  have "rev s \<noteq> []" and "\<not> py_isspace (hd (rev s))"
    using assms(1,3) by (simp_all add: hd_rev)
  then have b: "dropWhile py_isspace (rev s) = rev s"
    by (cases "rev s") simp_all
  show ?thesis
    by (simp add: py_strip_def a b)
qed

text \<open>Claim C5 as stated fails: the editor's text is present, a string and non-blank,
  and the function returns it without its surrounding blanks, not the text itself.\<close>

theorem edit_text_returned_stripped:
  "edit_final_text run_padded = Inr (PStr '' Final. '')
   \<and> py_strip '' Final. '' \<noteq> []
   \<and> fst (blog_generate_using_crewai_content_marketing env_crew_padded (PStr ''cats'') PNone PNone
          PNone PNone (PInt 700)) = Inr (PStr ''Final.'')
   \<and> PStr ''Final.'' \<noteq> PStr '' Final. ''"
  by (simp add: staged_available env_crew_padded_def keywords_str_def extract_result_def
        extract_try_def edit_final_text_def getattr_default_def run_padded_def py_strip_def
        py_isspace_def)

text \<open>
  Claim C5, amended. When a staged run completes, the function returns the editor's text
  with the blanks around it stripped if that text is present, a string and not blank;
  in every other case, an exception while reading the editor's output included, it
  returns the aggregate result as text, stripped. Stripping leaves a text unchanged when
  it neither starts nor ends with a blank.
\<close>

theorem staged_result_extraction:
  assumes "crewai_imported w"
    and "keywords_str kw = Inr k"
    and "crew_kickoff w (build_crew w t b a tn k wc) = Inr run"
  shows "fst (blog_generate_using_crewai_content_marketing w t b a tn kw wc) =
           Inr (PStr (case edit_final_text run of
                        Inl e \<Rightarrow> py_strip (run_result_str run)
                      | Inr (PStr s) \<Rightarrow>
                          if py_strip s \<noteq> [] then py_strip s else py_strip (run_result_str run)
                      | Inr _ \<Rightarrow> py_strip (run_result_str run)))
       \<and> (\<forall>s. s \<noteq> [] \<and> \<not> py_isspace (hd s) \<and> \<not> py_isspace (last s) \<longrightarrow> py_strip s = s)"
  using assms
  by (auto simp: staged_available extract_result_def extract_try_def py_strip_clean
           split: sum.splits pyval.splits)

theorem staged_result_extraction_witness:
  "crewai_imported env_crew_padded \<and> keywords_str PNone = Inr []
   \<and> crew_kickoff env_crew_padded
        (build_crew env_crew_padded (PStr ''cats'') PNone PNone PNone [] (PInt 700)) = Inr run_padded
   \<and> fst (blog_generate_using_crewai_content_marketing env_crew_padded (PStr ''cats'') PNone PNone
          PNone PNone (PInt 700)) = Inr (PStr ''Final.'')
   \<and> crewai_imported env_crew_broken
   \<and> crew_kickoff env_crew_broken
        (build_crew env_crew_broken (PStr ''cats'') PNone PNone PNone [] (PInt 700)) = Inr run_broken
   \<and> edit_final_text run_broken = Inl (ServiceError ''output'')
   \<and> fst (blog_generate_using_crewai_content_marketing env_crew_broken (PStr ''cats'') PNone PNone
          PNone PNone (PInt 700)) = Inr (PStr ''aggregate'')"
proof -
  have a1: "crewai_imported env_crew_padded" and b1: "crewai_imported env_crew_broken"
    by (simp_all add: env_crew_padded_def env_crew_broken_def)
  have k: "keywords_str PNone = Inr []"
    by (simp add: keywords_str_def)
  have a3: "crew_kickoff env_crew_padded
        (build_crew env_crew_padded (PStr ''cats'') PNone PNone PNone [] (PInt 700)) = Inr run_padded"
    by (simp add: env_crew_padded_def)
  have b3: "crew_kickoff env_crew_broken
        (build_crew env_crew_broken (PStr ''cats'') PNone PNone PNone [] (PInt 700)) = Inr run_broken"
    by (simp add: env_crew_broken_def)
  have ea: "edit_final_text run_padded = Inr (PStr '' Final. '')"
    and eb: "edit_final_text run_broken = Inl (ServiceError ''output'')"
    by (simp_all add: edit_final_text_def getattr_default_def run_padded_def run_broken_def)
  have s: "py_strip '' Final. '' = ''Final.''" "py_strip '' aggregate '' = ''aggregate''"
    by (simp_all add: py_strip_def py_isspace_def)
  have r: "run_result_str run_broken = '' aggregate ''"
    by (simp add: run_broken_def)
  from staged_result_extraction [OF a1 k a3] staged_result_extraction [OF b1 k b3] a1 b1 k a3 b3
  show ?thesis by (simp add: ea eb s r)
qed

end
